theory Spec2Isabelle
  imports Main
begin

section \<open>The rule require-deprecation-date\<close>

text \<open>
  A shallow embedding of \<^verbatim>\<open>packages/plugin/src/rules/require-deprecation-date.ts\<close>:
  the visitor that the rule registers for \<^verbatim>\<open>Directive[name.value=deprecated]\<close>.
  One call of the visitor is one evaluation: it reads the rule options and the directive
  node, calls \<^verbatim>\<open>context.report\<close> some number of times, and either returns or throws.
\<close>

subsection \<open>The syntax tree, as the visitor reads it\<close>

type_synonym range = "nat \<times> nat"

text \<open>A \<^verbatim>\<open>NameNode\<close>: the fields \<^verbatim>\<open>value\<close> and \<^verbatim>\<open>range\<close>.\<close>

record NameNode =
  name_value :: string
  name_range :: range

text \<open>
  \<^verbatim>\<open>node.parent\<close>, the node the directive is attached to. The selector matches a
  directive under any parent, and the visitor reads the parent through a cast to
  \<^verbatim>\<open>any\<close>: a field, an enum value or an argument definition has a \<^verbatim>\<open>name\<close>, a schema
  definition or an anonymous operation has none (\<^const>\<open>None\<close> is \<^verbatim>\<open>undefined\<close>).
  \<^verbatim>\<open>fixer.remove\<close> reads its \<^verbatim>\<open>range\<close>; whatever else the node carries (its kind, its
  own parent) is the extension of the record, which only \<^verbatim>\<open>getNodeName\<close> looks at.
\<close>

record Member =
  member_name :: "NameNode option"
  member_range :: range

text \<open>An \<^verbatim>\<open>ArgumentNode\<close>; \<^typ>\<open>'v\<close> is the type of value nodes.\<close>

record 'v ArgumentNode =
  arg_name :: NameNode
  arg_value :: 'v

text \<open>
  The \<^verbatim>\<open>DirectiveNode\<close> handed to the visitor. \<^verbatim>\<open>arguments\<close> is an optional property,
  read with \<^verbatim>\<open>?.\<close> in the source: \<^const>\<open>None\<close> is \<^verbatim>\<open>undefined\<close>.
\<close>

record ('v, 'z) DirectiveNode =
  dir_name :: NameNode
  dir_arguments :: "'v ArgumentNode list option"
  dir_parent :: "'z Member_scheme"

subsection \<open>Rule options\<close>

text \<open>
  The schema: an array of at most one object whose only property, \<^verbatim>\<open>argumentName\<close>,
  is an optional string.
\<close>

record RuleOption =
  argumentName :: "string option"

type_synonym RuleOptions = "RuleOption list"

subsection \<open>What the visitor produces\<close>

datatype messageId =
  MESSAGE_REQUIRE_DATE
| MESSAGE_INVALID_FORMAT
| MESSAGE_INVALID_DATE
| MESSAGE_CAN_BE_REMOVED

text \<open>The node a report is anchored at: a name token or a value node.\<close>

datatype 'v anchor = NameToken NameNode | ValueToken 'v

text \<open>
  The fix object that ESLint's rule fixer builds: \<^verbatim>\<open>remove(node)\<close> is
  \<^verbatim>\<open>removeRange(node.range)\<close>, which is \<^verbatim>\<open>{ range, text: '' }\<close>.
\<close>

record Fix =
  fix_range :: range
  fix_text :: string

definition fixer_remove :: "'z Member_scheme \<Rightarrow> Fix" where
  "fixer_remove parent = \<lparr>fix_range = member_range parent, fix_text = []\<rparr>"

record suggestion =
  desc :: string
  fix_result :: Fix

text \<open>
  The descriptor passed to \<^verbatim>\<open>context.report\<close>. \<^verbatim>\<open>data\<close> lists the message parameters
  in the order of the object literal; a descriptor without \<^verbatim>\<open>suggest\<close> has no
  suggestion.
\<close>

record 'v report =
  node :: "'v anchor"
  messageId :: messageId
  data :: "(string \<times> string) list"
  suggest :: "suggestion list"

datatype js_error = TypeError

text \<open>
  The effect of one evaluation: the descriptors reported, in order, and the exception
  that ended it, if one did.
\<close>

record 'v run =
  reported :: "'v report list"
  thrown :: "js_error option"

definition start :: "'v run" where
  "start = \<lparr>reported = [], thrown = None\<rparr>"

definition context_report :: "'v report \<Rightarrow> 'v run \<Rightarrow> 'v run" where
  "context_report d r = r\<lparr>reported := reported r @ [d]\<rparr>"

definition throw :: "js_error \<Rightarrow> 'v run \<Rightarrow> 'v run" where
  "throw e r = r\<lparr>thrown := Some e\<rparr>"

subsection \<open>What the visitor imports and the platform it runs on\<close>

text \<open>
  \<^verbatim>\<open>valueFromNode\<close> returns \<^verbatim>\<open>any\<close>: a string, or a value of another kind
  (\<^typ>\<open>'n\<close>: a number, a boolean, null, a list, an object).
\<close>

datatype 'n js_value = JSString string | JSOther 'n

text \<open>
  The visitor calls two functions of the plugin that are defined in other modules
  (\<^verbatim>\<open>getNodeName\<close> of \<^verbatim>\<open>../utils.js\<close> and \<^verbatim>\<open>valueFromNode\<close> of
  \<^verbatim>\<open>../estree-converter/index.js\<close>) and three of the language:
  the conversion to a string that \<^verbatim>\<open>RegExp.prototype.test\<close> applies to an argument
  that is not a string (it throws a \<^verbatim>\<open>TypeError\<close> on a value with no primitive form, such
  as an object without prototype), \<^verbatim>\<open>Date.parse\<close> (a time value in milliseconds, or
  \<^const>\<open>None\<close> for \<^verbatim>\<open>NaN\<close>) and \<^verbatim>\<open>Date.now()\<close>. They are parameters of the model.
\<close>

record ('v, 'n, 'z) host =
  getNodeName :: "'z Member_scheme \<Rightarrow> string"
  valueFromNode :: "'v \<Rightarrow> 'n js_value"
  ToString :: "'n \<Rightarrow> js_error + string"
  Date_parse :: "string \<Rightarrow> int option"
  Date_now :: int

subsection \<open>Strings\<close>

text \<open>\<^verbatim>\<open>String.prototype.split\<close> with a separator of one character.\<close>

fun String_split :: "char \<Rightarrow> string \<Rightarrow> string list" where
  "String_split sep [] = [[]]"
| "String_split sep (c # cs) =
     (if c = sep then [] # String_split sep cs
      else (case String_split sep cs of
              [] \<Rightarrow> [[c]]
            | p # ps \<Rightarrow> (c # p) # ps))"

text \<open>\<^verbatim>\<open>String.prototype.padStart\<close> with a pad string of one character.\<close>

definition padStart :: "nat \<Rightarrow> char \<Rightarrow> string \<Rightarrow> string" where
  "padStart n c s = (if n \<le> length s then s else replicate (n - length s) c @ s)"

text \<open>
  Array destructuring \<^verbatim>\<open>[a, b, c] = xs\<close> reads \<^verbatim>\<open>xs[0]\<close>, \<^verbatim>\<open>xs[1]\<close>, \<^verbatim>\<open>xs[2]\<close>; an
  index past the end reads \<^verbatim>\<open>undefined\<close>.
\<close>

definition at :: "'a list \<Rightarrow> nat \<Rightarrow> 'a option" where
  "at xs i = (if i < length xs then Some (xs ! i) else None)"

subsection \<open>The two patterns\<close>

text \<open>\<^verbatim>\<open>\d\<close> matches the ten ASCII digits.\<close>

definition is_digit :: "char \<Rightarrow> bool" where
  "is_digit c = (c \<in> set ''0123456789'')"

text \<open>
  Both patterns are a sequence of \<^verbatim>\<open>\d{n}\<close> and literal characters between \<^verbatim>\<open>^\<close> and
  \<^verbatim>\<open>$\<close>, so matching is one pass: each piece consumes a prefix or fails, and the match
  succeeds when nothing is left.
\<close>

primrec digits :: "nat \<Rightarrow> string \<Rightarrow> string option" where
  "digits 0 s = Some s"
| "digits (Suc n) s =
     (case s of
        [] \<Rightarrow> None
      | c # cs \<Rightarrow> if is_digit c then digits n cs else None)"

definition lit :: "char \<Rightarrow> string \<Rightarrow> string option" where
  "lit c s = (case s of [] \<Rightarrow> None | x # xs \<Rightarrow> if x = c then Some xs else None)"

text \<open>\<^verbatim>\<open>DATE_REGEX1 = /^\d{2}\/\d{2}\/\d{4}$/\<close>\<close>

definition DATE_REGEX1_test :: "string \<Rightarrow> bool" where
  "DATE_REGEX1_test s =
     (Option.bind (Option.bind (Option.bind (Option.bind (digits 2 s)
        (lit CHR ''/'')) (digits 2)) (lit CHR ''/'')) (digits 4) = Some [])"

text \<open>\<^verbatim>\<open>DATE_REGEX2 = /^\d{4}(?:\/\d{2}){2}$/\<close>\<close>

definition DATE_REGEX2_test :: "string \<Rightarrow> bool" where
  "DATE_REGEX2_test s =
     (Option.bind (Option.bind (Option.bind (Option.bind (digits 4 s)
        (lit CHR ''/'')) (digits 2)) (lit CHR ''/'')) (digits 2) = Some [])"

subsection \<open>The visitor\<close>

text \<open>\<^verbatim>\<open>context.options[0]?.argumentName || 'deletionDate'\<close>\<close>

definition argName :: "RuleOptions \<Rightarrow> string" where
  "argName options =
     (case (case options of [] \<Rightarrow> None | opt # _ \<Rightarrow> argumentName opt) of
        None \<Rightarrow> ''deletionDate''
      | Some n \<Rightarrow> if n = [] then ''deletionDate'' else n)"

text \<open>\<^verbatim>\<open>node.arguments?.find(arg => arg.name.value === argName)\<close>\<close>

definition deletionDateNode ::
  "RuleOptions \<Rightarrow> ('v, 'z) DirectiveNode \<Rightarrow> 'v ArgumentNode option" where
  "deletionDateNode options nd =
     (case dir_arguments nd of
        None \<Rightarrow> None
      | Some args \<Rightarrow> find (\<lambda>arg. name_value (arg_name arg) = argName options) args)"

text \<open>
  The string a pattern is tested against: \<^verbatim>\<open>test\<close> converts its argument, and the
  conversion of a value that is not a string may throw.
\<close>

definition test_subject :: "('v, 'n, 'z) host \<Rightarrow> 'n js_value \<Rightarrow> js_error + string" where
  "test_subject h v = (case v of JSString s \<Rightarrow> Inr s | JSOther n \<Rightarrow> ToString h n)"

text \<open>
  \<^verbatim>\<open>deletionDate.split(sep)\<close>: only a string has the method; on any other value the
  call throws a \<^verbatim>\<open>TypeError\<close>.
\<close>

definition deletionDate_split :: "'n js_value \<Rightarrow> char \<Rightarrow> js_error + string list" where
  "deletionDate_split v sep =
     (case v of JSString s \<Rightarrow> Inr (String_split sep s) | JSOther n \<Rightarrow> Inl TypeError)"

text \<open>
  Lines 110 to 115: the three variables start \<^verbatim>\<open>undefined\<close> and are assigned by
  destructuring. The result is (day, month, year).
\<close>

definition split_date ::
  "bool \<Rightarrow> bool \<Rightarrow> 'n js_value \<Rightarrow> js_error + (string option \<times> string option \<times> string option)" where
  "split_date isValidDate1 isValidDate2 deletionDate =
     (if isValidDate1 then
        (case deletionDate_split deletionDate CHR ''/'' of
           Inl e \<Rightarrow> Inl e
         | Inr parts \<Rightarrow> Inr (at parts 0, at parts 1, at parts 2))
      else if isValidDate2 then
        (case deletionDate_split deletionDate CHR ''-'' of
           Inl e \<Rightarrow> Inl e
         | Inr parts \<Rightarrow> Inr (at parts 2, at parts 1, at parts 0))
      else Inr (None, None, None))"

text \<open>A method call on a variable: on \<^verbatim>\<open>undefined\<close> it throws a \<^verbatim>\<open>TypeError\<close>.\<close>

definition call_padStart :: "string option \<Rightarrow> js_error + string" where
  "call_padStart x = (case x of None \<Rightarrow> Inl TypeError | Some s \<Rightarrow> Inr (padStart 2 CHR ''0'' s))"

text \<open>A variable in a template literal: \<^verbatim>\<open>undefined\<close> prints as its name.\<close>

definition template :: "string option \<Rightarrow> string" where
  "template x = (case x of None \<Rightarrow> ''undefined'' | Some s \<Rightarrow> s)"

text \<open>Lines 110 to 118: the value of \<^verbatim>\<open>deletionDateInMS\<close>, \<^const>\<open>None\<close> for \<^verbatim>\<open>NaN\<close>.\<close>

definition deletionDateInMS ::
  "('v, 'n, 'z) host \<Rightarrow> bool \<Rightarrow> bool \<Rightarrow> 'n js_value \<Rightarrow> js_error + int option" where
  "deletionDateInMS h isValidDate1 isValidDate2 deletionDate =
     (case split_date isValidDate1 isValidDate2 deletionDate of
        Inl e \<Rightarrow> Inl e
      | Inr (day, month, year) \<Rightarrow>
          (case call_padStart day of
             Inl e \<Rightarrow> Inl e
           | Inr day' \<Rightarrow>
               (case call_padStart month of
                  Inl e \<Rightarrow> Inl e
                | Inr month' \<Rightarrow>
                    Inr (Date_parse h (template year @ ''-'' @ month' @ ''-'' @ day')))))"

text \<open>The description of the suggestion, a template literal.\<close>

definition remove_desc :: "string \<Rightarrow> string" where
  "remove_desc nodeName = ''Remove `'' @ nodeName @ ''`''"

text \<open>
  The visitor \<^verbatim>\<open>'Directive[name.value=deprecated]'(node)\<close>, lines 84 to 149.
  Line 99 converts \<^verbatim>\<open>deletionDate\<close> for the first test, and throws if the conversion
  does; line 100 converts the same value again. Where \<^verbatim>\<open>deletionDate\<close> is reported as a
  message parameter it is a string, since a value of another kind has thrown at
  \<^verbatim>\<open>split\<close>. Line 136 reads \<^verbatim>\<open>parent.name.value\<close> with no guard: on a parent without
  name it throws a \<^verbatim>\<open>TypeError\<close>, before the report.
\<close>

definition visit ::
  "('v, 'n, 'z) host \<Rightarrow> RuleOptions \<Rightarrow> ('v, 'z) DirectiveNode \<Rightarrow> 'v run" where
  "visit h options nd =
     (case deletionDateNode options nd of
        None \<Rightarrow>
          context_report
            \<lparr>node = NameToken (dir_name nd),
             messageId = MESSAGE_REQUIRE_DATE,
             data = [(''nodeName'', getNodeName h (dir_parent nd))],
             suggest = []\<rparr> start
      | Some arg \<Rightarrow>
          (let deletionDate = valueFromNode h (arg_value arg)
           in
             case test_subject h deletionDate of
               Inl e \<Rightarrow> throw e start
             | Inr subject \<Rightarrow>
                 (let isValidDate1 = DATE_REGEX1_test subject;
                      isValidDate2 = DATE_REGEX2_test subject
                  in
                    if \<not> isValidDate1 \<and> \<not> isValidDate2 then
                      context_report
                        \<lparr>node = ValueToken (arg_value arg),
                         messageId = MESSAGE_INVALID_FORMAT,
                         data = [(''nodeName'', getNodeName h (dir_parent nd))],
                         suggest = []\<rparr> start
                    else
                      (case deletionDateInMS h isValidDate1 isValidDate2 deletionDate of
                         Inl e \<Rightarrow> throw e start
                       | Inr None \<Rightarrow>
                           context_report
                             \<lparr>node = ValueToken (arg_value arg),
                              messageId = MESSAGE_INVALID_DATE,
                              data = [(''deletionDate'', subject),
                                      (''nodeName'', getNodeName h (dir_parent nd))],
                              suggest = []\<rparr> start
                       | Inr (Some ms) \<Rightarrow>
                           (let canRemove = Date_now h > ms
                            in
                              if canRemove then
                                (let parent = dir_parent nd
                                 in
                                   case member_name parent of
                                     None \<Rightarrow> throw TypeError start
                                   | Some parent_name \<Rightarrow>
                                       (let nodeName = name_value parent_name
                                        in
                                          context_report
                                            \<lparr>node = NameToken parent_name,
                                             messageId = MESSAGE_CAN_BE_REMOVED,
                                             data = [(''nodeName'', getNodeName h parent)],
                                             suggest =
                                               [\<lparr>desc = remove_desc nodeName,
                                                 fix_result = fixer_remove parent\<rparr>]\<rparr>
                                            start))
                              else start)))))"

subsection \<open>Removing the arguments of one name\<close>


subsection \<open>A concrete schema and host, for the examples\<close>

text \<open>
  The examples run the visitor on the field of the rule's documentation,
  \<^verbatim>\<open>firstname: String @deprecated(...)\<close>. A value node is its text and is extracted as a
  string; the label of a member is its name; \<^verbatim>\<open>Date.parse\<close> knows the three dates of
  the examples (midnight UTC, in milliseconds) and answers \<^verbatim>\<open>NaN\<close> otherwise; the clock
  stands at 1700000000000, in November 2023.
\<close>

definition demo_parse :: "string \<Rightarrow> int option" where
  "demo_parse s =
     (if s = ''2020-01-01'' then Some 1577836800000
      else if s = ''2022-12-25'' then Some 1671926400000
      else if s = ''2099-12-25'' then Some 4101840000000
      else None)"

definition demo_host :: "(string, unit, unit) host" where
  "demo_host =
     \<lparr>getNodeName = (\<lambda>m. case member_name m of None \<Rightarrow> [] | Some n \<Rightarrow> name_value n),
      valueFromNode = JSString,
      ToString = (\<lambda>_. Inr ''null''),
      Date_parse = demo_parse,
      Date_now = 1700000000000\<rparr>"

definition firstname :: Member where
  "firstname =
     \<lparr>member_name = Some \<lparr>name_value = ''firstname'', name_range = (14, 23)\<rparr>,
      member_range = (14, 95)\<rparr>"

definition argument :: "string \<Rightarrow> string \<Rightarrow> string ArgumentNode" where
  "argument n v = \<lparr>arg_name = \<lparr>name_value = n, name_range = (0, 0)\<rparr>, arg_value = v\<rparr>"

definition deprecated :: "string ArgumentNode list \<Rightarrow> (string, unit) DirectiveNode" where
  "deprecated args =
     \<lparr>dir_name = \<lparr>name_value = ''deprecated'', name_range = (33, 43)\<rparr>,
      dir_arguments = Some args,
      dir_parent = firstname\<rparr>"

section \<open>Properties\<close>

subsection \<open>The patterns, and what splitting does to a string they accept\<close>

lemma not_digit_sep: "\<not> is_digit CHR ''/''" "\<not> is_digit CHR ''-''"
  by (simp_all add: is_digit_def)

text \<open>The first pattern accepts exactly: two digits, a slash, two digits, a slash, four digits.\<close>

lemma DATE_REGEX1_test_iff:
  "DATE_REGEX1_test s \<longleftrightarrow>
     (\<exists>d1 d2 m1 m2 y1 y2 y3 y4.
        s = [d1, d2, CHR ''/'', m1, m2, CHR ''/'', y1, y2, y3, y4]
        \<and> is_digit d1 \<and> is_digit d2 \<and> is_digit m1 \<and> is_digit m2
        \<and> is_digit y1 \<and> is_digit y2 \<and> is_digit y3 \<and> is_digit y4)"
  unfolding DATE_REGEX1_test_def lit_def
  by (auto simp: eval_nat_numeral Option.bind_eq_Some_conv split: list.splits if_splits)

text \<open>The second accepts exactly: four digits, a slash, two digits, a slash, two digits.\<close>

lemma DATE_REGEX2_test_iff:
  "DATE_REGEX2_test s \<longleftrightarrow>
     (\<exists>y1 y2 y3 y4 m1 m2 d1 d2.
        s = [y1, y2, y3, y4, CHR ''/'', m1, m2, CHR ''/'', d1, d2]
        \<and> is_digit y1 \<and> is_digit y2 \<and> is_digit y3 \<and> is_digit y4
        \<and> is_digit m1 \<and> is_digit m2 \<and> is_digit d1 \<and> is_digit d2)"
  unfolding DATE_REGEX2_test_def lit_def
  by (auto simp: eval_nat_numeral Option.bind_eq_Some_conv split: list.splits if_splits)

lemma layoutB_not_layoutA: "DATE_REGEX2_test s \<Longrightarrow> \<not> DATE_REGEX1_test s"
  by (auto simp: DATE_REGEX1_test_iff DATE_REGEX2_test_iff not_digit_sep)

lemma String_split_no_sep: "sep \<notin> set s \<Longrightarrow> String_split sep s = [s]"
  by (induction s) auto

text \<open>
  A string of the first pattern is split on the slash the pattern tested for, into day,
  month and year, and the date handed to \<^verbatim>\<open>Date.parse\<close> is year-month-day.
\<close>

lemma layoutA_split:
  "DATE_REGEX1_test s \<Longrightarrow>
   split_date True b (JSString s) = Inr (Some (take 2 s), Some (take 2 (drop 3 s)), Some (drop 6 s))"
  by (auto simp: DATE_REGEX1_test_iff split_date_def deletionDate_split_def at_def not_digit_sep)

lemma layoutA_resolves:
  "DATE_REGEX1_test s \<Longrightarrow>
   deletionDateInMS h True b (JSString s) =
     Inr (Date_parse h (drop 6 s @ ''-'' @ take 2 (drop 3 s) @ ''-'' @ take 2 s))"
  by (simp add: deletionDateInMS_def layoutA_split call_padStart_def template_def)
    (auto simp: DATE_REGEX1_test_iff padStart_def)

text \<open>
  A string of the second pattern holds digits and slashes only, so splitting it on the
  hyphen returns it whole: \<^verbatim>\<open>year\<close> is the whole string, \<^verbatim>\<open>month\<close> and \<^verbatim>\<open>day\<close> stay
  \<^verbatim>\<open>undefined\<close>.
\<close>

lemma layoutB_split:
  assumes "DATE_REGEX2_test s"
  shows "split_date False True (JSString s) = Inr (None, None, Some s)"
proof -
  have "CHR ''-'' \<notin> set s"
    using assms by (auto simp: DATE_REGEX2_test_iff not_digit_sep)
  then have "String_split CHR ''-'' s = [s]"
    by (rule String_split_no_sep)
  then show ?thesis
    by (simp add: split_date_def deletionDate_split_def at_def)
qed

subsection \<open>Outcomes of the visitor\<close>

text \<open>Every string of the second pattern ends the evaluation at \<^verbatim>\<open>day.padStart\<close>.\<close>

lemma layoutB_throws:
  assumes "deletionDateNode options nd = Some arg"
    and "valueFromNode h (arg_value arg) = JSString s"
    and "DATE_REGEX2_test s"
  shows "visit h options nd = \<lparr>reported = [], thrown = Some TypeError\<rparr>"
  using assms layoutB_not_layoutA [OF assms(3)]
  by (simp add: visit_def test_subject_def deletionDateInMS_def layoutB_split call_padStart_def
      throw_def start_def)

text \<open>
  A string of the first pattern for which \<^verbatim>\<open>Date.parse\<close> answers \<^verbatim>\<open>NaN\<close> is reported as
  an invalid date, with the string as it was written.
\<close>

lemma layoutA_invalid_date:
  assumes "deletionDateNode options nd = Some arg"
    and "valueFromNode h (arg_value arg) = JSString s"
    and "DATE_REGEX1_test s"
    and "Date_parse h (drop 6 s @ ''-'' @ take 2 (drop 3 s) @ ''-'' @ take 2 s) = None"
  shows "visit h options nd =
           \<lparr>reported = [\<lparr>node = ValueToken (arg_value arg),
                         messageId = MESSAGE_INVALID_DATE,
                         data = [(''deletionDate'', s),
                                 (''nodeName'', getNodeName h (dir_parent nd))],
                         suggest = []\<rparr>],
            thrown = None\<rparr>"
  using assms
  by (simp add: visit_def test_subject_def layoutA_resolves context_report_def start_def)

text \<open>
  A value that is not a string: if its conversion throws, the evaluation ends at the
  first test; if it prints as a string of one of the patterns (a list of one such string
  does), the evaluation ends at \<^verbatim>\<open>split\<close>, a method it does not have. Neither reports.
\<close>

lemma conversion_throws:
  assumes "deletionDateNode options nd = Some arg"
    and "valueFromNode h (arg_value arg) = JSOther x"
    and "ToString h x = Inl e"
  shows "visit h options nd = \<lparr>reported = [], thrown = Some e\<rparr>"
  using assms by (simp add: visit_def test_subject_def throw_def start_def)

lemma other_value_throws:
  assumes "deletionDateNode options nd = Some arg"
    and "valueFromNode h (arg_value arg) = JSOther x"
    and "ToString h x = Inr t"
    and "DATE_REGEX1_test t \<or> DATE_REGEX2_test t"
  shows "visit h options nd = \<lparr>reported = [], thrown = Some TypeError\<rparr>"
proof -
  let ?a = "DATE_REGEX1_test t" and ?b = "DATE_REGEX2_test t"
  have "split_date ?a ?b (JSOther x) = Inl TypeError"
    using assms(4) by (auto simp: split_date_def deletionDate_split_def)
  then have "deletionDateInMS h ?a ?b (JSOther x) = Inl TypeError"
    by (simp add: deletionDateInMS_def)
  then show ?thesis
    using assms by (auto simp: visit_def Let_def test_subject_def throw_def start_def)
qed

text \<open>
  A string of the first pattern that \<^verbatim>\<open>Date.parse\<close> resolves to the instant \<open>ms\<close>: the
  comparison with the clock is strict. Before the clock, a parent with a name is reported
  as removable and a parent without name ends the evaluation at \<^verbatim>\<open>parent.name.value\<close>;
  at the clock or after it, nothing is reported.
\<close>

lemma layoutA_resolved:
  assumes "deletionDateNode options nd = Some arg"
    and "valueFromNode h (arg_value arg) = JSString s"
    and "DATE_REGEX1_test s"
    and "Date_parse h (drop 6 s @ ''-'' @ take 2 (drop 3 s) @ ''-'' @ take 2 s) = Some ms"
  shows "visit h options nd =
           (if ms < Date_now h then
              (case member_name (dir_parent nd) of
                 None \<Rightarrow> \<lparr>reported = [], thrown = Some TypeError\<rparr>
               | Some parent_name \<Rightarrow>
                   \<lparr>reported =
                      [\<lparr>node = NameToken parent_name,
                        messageId = MESSAGE_CAN_BE_REMOVED,
                        data = [(''nodeName'', getNodeName h (dir_parent nd))],
                        suggest = [\<lparr>desc = remove_desc (name_value parent_name),
                                   fix_result = fixer_remove (dir_parent nd)\<rparr>]\<rparr>],
                    thrown = None\<rparr>)
            else \<lparr>reported = [], thrown = None\<rparr>)"
  using assms
  by (simp add: visit_def Let_def test_subject_def layoutA_resolves context_report_def
      throw_def start_def split: option.split)





subsection \<open>The claims of the specification\<close>

text \<open>
  C1. The specification says that evaluating the rule on a \<^verbatim>\<open>deprecated\<close> directive
  returns zero or one diagnostic and never throws, in particular not on a value that the
  second pattern accepts. On the code, the value \<^verbatim>\<open>2022/12/25\<close> is accepted by the second
  pattern and the evaluation ends in a \<^verbatim>\<open>TypeError\<close>, with nothing reported.
\<close>

theorem layoutB_evaluation_throws:
  "DATE_REGEX2_test ''2022/12/25''
   \<and> visit demo_host []
       (deprecated [argument ''reason'' ''renamed'', argument ''deletionDate'' ''2022/12/25''])
     = \<lparr>reported = [], thrown = Some TypeError\<rparr>"
  by code_simp

text \<open>
  C2. The specification says that a string accepted by the second pattern is split on the
  separator the pattern tested for, into year, month and day. On the code, the pattern
  tests for slashes and the split is on the hyphen: \<^verbatim>\<open>2022/12/25\<close> comes back as one
  piece, which becomes the year, and month and day are \<^verbatim>\<open>undefined\<close>.
\<close>

theorem layoutB_split_on_hyphen:
  "DATE_REGEX2_test ''2022/12/25''
   \<and> deletionDate_split (JSString ''2022/12/25'' :: unit js_value) CHR ''-''
     = Inr [''2022/12/25'']
   \<and> split_date False True (JSString ''2022/12/25'' :: unit js_value)
     = Inr (None, None, Some ''2022/12/25'')"
  by code_simp

text \<open>
  C3. Every evaluation reports no diagnostic or exactly one, so the four kinds exclude one
  another; and an evaluation that has reported has returned: whenever something is
  reported, nothing is thrown.
\<close>

theorem at_most_one_report:
  "length (reported (visit h options nd)) \<le> 1
   \<and> (reported (visit h options nd) = [] \<or> thrown (visit h options nd) = None)"
  by (simp add: visit_def Let_def context_report_def start_def throw_def
      split: option.split sum.split)

text \<open>
  C4. The specification says that a valid deletion date strictly before the current time
  is reported as \<^verbatim>\<open>MESSAGE_CAN_BE_REMOVED\<close> with a suggestion. On the code,
  \<^verbatim>\<open>2020/01/01\<close> is accepted by the second pattern; its date, 1 January 2020, is one that
  \<^verbatim>\<open>Date.parse\<close> resolves, to an instant before the clock; and the evaluation ends in a
  \<^verbatim>\<open>TypeError\<close> with nothing reported, before \<^verbatim>\<open>Date.parse\<close> and the clock are consulted.
  The same date written for the first pattern, \<^verbatim>\<open>01/01/2020\<close>, is reported as removable.
\<close>

theorem layoutB_past_date_throws:
  "DATE_REGEX2_test ''2020/01/01''
   \<and> Date_parse demo_host ''2020-01-01'' = Some 1577836800000
   \<and> 1577836800000 < Date_now demo_host
   \<and> visit demo_host [] (deprecated [argument ''deletionDate'' ''2020/01/01''])
     = \<lparr>reported = [], thrown = Some TypeError\<rparr>
   \<and> map messageId (reported (visit demo_host []
         (deprecated [argument ''deletionDate'' ''01/01/2020''])))
     = [MESSAGE_CAN_BE_REMOVED]"
  by code_simp

text \<open>
  C5. When no argument of the directive has the name the rule searches for (the directive
  may have no argument list at all), exactly one diagnostic is reported:
  \<^verbatim>\<open>MESSAGE_REQUIRE_DATE\<close>, anchored at the name token of the directive, with the parameter
  \<^verbatim>\<open>nodeName\<close> the label of the parent member, and without a suggestion.
\<close>

theorem missing_argument:
  assumes "\<forall>arg \<in> set (case dir_arguments nd of None \<Rightarrow> [] | Some args \<Rightarrow> args).
             name_value (arg_name arg) \<noteq> argName options"
  shows "visit h options nd =
           \<lparr>reported = [\<lparr>node = NameToken (dir_name nd),
                         messageId = MESSAGE_REQUIRE_DATE,
                         data = [(''nodeName'', getNodeName h (dir_parent nd))],
                         suggest = []\<rparr>],
            thrown = None\<rparr>"
proof -
  have "deletionDateNode options nd = None"
    using assms by (auto simp: deletionDateNode_def find_None_iff split: option.split)
  then show ?thesis
    by (simp add: visit_def context_report_def start_def)
qed

text \<open>A directive that only gives a reason.\<close>

theorem missing_argument_witness:
  "visit demo_host [] (deprecated [argument ''reason'' ''renamed''])
   = \<lparr>reported = [\<lparr>node = NameToken \<lparr>name_value = ''deprecated'', name_range = (33, 43)\<rparr>,
                   messageId = MESSAGE_REQUIRE_DATE,
                   data = [(''nodeName'', ''firstname'')],
                   suggest = []\<rparr>],
      thrown = None\<rparr>"
  using missing_argument [of "deprecated [argument ''reason'' ''renamed'']" "[]" demo_host]
  by (simp add: deprecated_def argument_def argName_def demo_host_def firstname_def)

text \<open>
  C6. When the extracted value is a string that neither pattern accepts in full, such as
  \<^verbatim>\<open>2022\<close> or \<^verbatim>\<open>25-12-2022\<close>, the evaluation reports \<^verbatim>\<open>MESSAGE_INVALID_FORMAT\<close>, anchored
  at the value node of the argument, and returns.
\<close>

theorem invalid_format:
  assumes "deletionDateNode options nd = Some arg"
    and "valueFromNode h (arg_value arg) = JSString s"
    and "\<not> DATE_REGEX1_test s" and "\<not> DATE_REGEX2_test s"
  shows "visit h options nd =
           \<lparr>reported = [\<lparr>node = ValueToken (arg_value arg),
                         messageId = MESSAGE_INVALID_FORMAT,
                         data = [(''nodeName'', getNodeName h (dir_parent nd))],
                         suggest = []\<rparr>],
            thrown = None\<rparr>"
  using assms by (simp add: visit_def test_subject_def context_report_def start_def)

theorem invalid_format_witness:
  "\<not> DATE_REGEX1_test ''25-12-2022'' \<and> \<not> DATE_REGEX2_test ''25-12-2022''
   \<and> \<not> DATE_REGEX1_test ''2022'' \<and> \<not> DATE_REGEX2_test ''2022''
   \<and> visit demo_host [] (deprecated [argument ''deletionDate'' ''25-12-2022''])
     = \<lparr>reported = [\<lparr>node = ValueToken ''25-12-2022'',
                     messageId = MESSAGE_INVALID_FORMAT,
                     data = [(''nodeName'', ''firstname'')],
                     suggest = []\<rparr>],
        thrown = None\<rparr>
   \<and> visit demo_host [] (deprecated [argument ''deletionDate'' ''2022''])
     = \<lparr>reported = [\<lparr>node = ValueToken ''2022'',
                     messageId = MESSAGE_INVALID_FORMAT,
                     data = [(''nodeName'', ''firstname'')],
                     suggest = []\<rparr>],
        thrown = None\<rparr>"
proof -
  have m: "\<not> DATE_REGEX1_test ''25-12-2022''" "\<not> DATE_REGEX2_test ''25-12-2022''"
    "\<not> DATE_REGEX1_test ''2022''" "\<not> DATE_REGEX2_test ''2022''"
    by code_simp+
  have f: "deletionDateNode [] (deprecated [argument ''deletionDate'' x])
           = Some (argument ''deletionDate'' x)" for x
    by (simp add: deletionDateNode_def deprecated_def argument_def argName_def)
  have v: "valueFromNode demo_host (arg_value (argument ''deletionDate'' x)) = JSString x" for x
    by (simp add: demo_host_def argument_def)
  show ?thesis
    using m invalid_format [OF f v m(1,2)] invalid_format [OF f v m(3,4)]
    by (simp add: demo_host_def deprecated_def argument_def firstname_def)
qed

text \<open>
  C7. The specification says that a string of an accepted layout whose year, month and
  day are no calendar date is reported as \<^verbatim>\<open>MESSAGE_INVALID_DATE\<close>. On the code,
  \<^verbatim>\<open>2022/13/01\<close> is accepted by the second pattern, its month is 13, and the evaluation
  ends in a \<^verbatim>\<open>TypeError\<close> before the date is looked at, whatever \<^verbatim>\<open>Date.parse\<close> answers;
  nothing is reported.
\<close>

theorem layoutB_month_13_throws:
  "DATE_REGEX2_test ''2022/13/01''
   \<and> visit (demo_host\<lparr>Date_parse := parse\<rparr>) []
       (deprecated [argument ''deletionDate'' ''2022/13/01''])
     = \<lparr>reported = [], thrown = Some TypeError\<rparr>"
proof -
  have m: "DATE_REGEX2_test ''2022/13/01''"
    by code_simp
  have f: "deletionDateNode [] (deprecated [argument ''deletionDate'' ''2022/13/01''])
           = Some (argument ''deletionDate'' ''2022/13/01'')"
    by code_simp
  have v: "valueFromNode (demo_host\<lparr>Date_parse := parse\<rparr>)
             (arg_value (argument ''deletionDate'' ''2022/13/01'')) = JSString ''2022/13/01''"
    by (simp add: demo_host_def argument_def)
  show ?thesis
    using m layoutB_throws [OF f v m] by simp
qed

text \<open>
  C8. Every \<^verbatim>\<open>MESSAGE_CAN_BE_REMOVED\<close> diagnostic is anchored at the name token of the
  parent member (which then has one) and carries one suggestion: its description is
  \<^verbatim>\<open>Remove\<close> followed by the name of the member, which the template literal puts between
  backquotes, and its fix deletes the whole range of the parent member.
\<close>

theorem can_be_removed_shape:
  assumes "d \<in> set (reported (visit h options nd))"
    and "messageId d = MESSAGE_CAN_BE_REMOVED"
  shows "\<exists>parent_name.
           member_name (dir_parent nd) = Some parent_name
           \<and> node d = NameToken parent_name
           \<and> suggest d =
               [\<lparr>desc = ''Remove `'' @ name_value parent_name @ ''`'',
                 fix_result = \<lparr>fix_range = member_range (dir_parent nd), fix_text = ''''\<rparr>\<rparr>]"
  using assms
  by (auto simp: visit_def Let_def context_report_def start_def throw_def remove_desc_def
      fixer_remove_def split: option.splits sum.splits if_splits)

theorem can_be_removed_shape_witness:
  "map messageId (reported (visit demo_host []
       (deprecated [argument ''deletionDate'' ''25/12/2022''])))
     = [MESSAGE_CAN_BE_REMOVED]
   \<and> map node (reported (visit demo_host []
       (deprecated [argument ''deletionDate'' ''25/12/2022''])))
     = [NameToken \<lparr>name_value = ''firstname'', name_range = (14, 23)\<rparr>]
   \<and> map suggest (reported (visit demo_host []
       (deprecated [argument ''deletionDate'' ''25/12/2022''])))
     = [[\<lparr>desc = ''Remove `firstname`'',
          fix_result = \<lparr>fix_range = (14, 95), fix_text = ''''\<rparr>\<rparr>]]"
proof -
  let ?nd = "deprecated [argument ''deletionDate'' ''25/12/2022'']"
  have "map messageId (reported (visit demo_host [] ?nd)) = [MESSAGE_CAN_BE_REMOVED]"
    by code_simp
  then obtain d where r: "reported (visit demo_host [] ?nd) = [d]"
    and k: "messageId d = MESSAGE_CAN_BE_REMOVED"
    by (auto simp: map_eq_Cons_conv)
  from r have "d \<in> set (reported (visit demo_host [] ?nd))"
    by simp
  from can_be_removed_shape [OF this k] show ?thesis
    using r k by (auto simp: deprecated_def firstname_def)
qed



text \<open>
  C10. The argument name the visitor searches for is the configured one unless that is
  absent or the empty string; in both cases it is \<^verbatim>\<open>deletionDate\<close>, never the empty name.
\<close>

theorem argName_absent_or_empty:
  "argName [] = ''deletionDate''
   \<and> argName (\<lparr>argumentName = None\<rparr> # rest) = ''deletionDate''
   \<and> argName (\<lparr>argumentName = Some []\<rparr> # rest) = ''deletionDate''
   \<and> argName options \<noteq> []"
  by (simp add: argName_def split: list.split option.split)

end
